theory Spec2Isabelle
  imports Main "HOL-Library.Sublist"
begin

section \<open>Python string primitives used by geomqa\<close>

text \<open>
  Strings are lists of \<^typ>\<open>char\<close>; a character stands for a code point below 256.
  Only the operations the program calls are modelled: \<open>re.sub\<close> with an empty
  replacement on patterns built from literal characters and the dot, \<open>str.strip\<close>,
  \<open>str.splitlines\<close>, \<open>str.split\<close> with a one-character separator, \<open>str.join\<close>
  and list indexing.
\<close>

subsection \<open>Regular expressions: literals and the dot\<close>

datatype re_item = Lit char | Dot

type_synonym pattern = "re_item list"

text \<open>Without \<open>re.DOTALL\<close> the dot matches every character except the newline.\<close>

fun item_matches :: "re_item \<Rightarrow> char \<Rightarrow> bool" where
  "item_matches (Lit a) c = (c = a)"
| "item_matches Dot c = (c \<noteq> CHR 0x0A)"

text \<open>\<open>match_here p s\<close>: the pattern matches a prefix of \<open>s\<close> (what \<open>re.match\<close> tests).\<close>

fun match_here :: "pattern \<Rightarrow> string \<Rightarrow> bool" where
  "match_here [] s = True"
| "match_here (i # is) [] = False"
| "match_here (i # is) (c # cs) = (item_matches i c \<and> match_here is cs)"

text \<open>
  \<open>sub_n p n s\<close> deletes the leftmost \<open>n\<close> non-overlapping matches of \<open>p\<close> from \<open>s\<close>,
  scanning from the left as \<open>re.sub\<close> does. A pattern of this kind has a fixed width,
  so a match at a position consumes exactly \<open>length p\<close> characters. An empty match
  is replaced by the empty string and the scan moves on by one character.
\<close>

function sub_n :: "pattern \<Rightarrow> nat \<Rightarrow> string \<Rightarrow> string" where
  "sub_n p 0 s = s"
| "sub_n p (Suc n) [] = []"
| "sub_n p (Suc n) (c # cs) =
     (if match_here p (c # cs)
      then (if p = [] then c # sub_n p n cs
            else sub_n p n (drop (length p) (c # cs)))
      else c # sub_n p (Suc n) cs)"
  by pat_completeness auto
termination
  by (relation "measure (\<lambda>(p, n, s). length s)") auto

text \<open>
  \<open>re.sub(pattern, repl, string, count=0, flags=0)\<close> with \<open>repl = ""\<close>: a count of
  zero replaces every match, a positive count at most that many. A string of
  length \<open>k\<close> holds at most \<open>k + 1\<close> matches.
\<close>

definition re_sub :: "pattern \<Rightarrow> string \<Rightarrow> nat \<Rightarrow> string" where
  "re_sub p s count = (if count = 0 then sub_n p (Suc (length s)) s else sub_n p count s)"

text \<open>The flag \<open>re.I\<close> (\<open>re.IGNORECASE\<close>) is the integer 2.\<close>

definition re_I :: nat where
  "re_I = 2"

subsection \<open>strip, splitlines, split, join, indexing\<close>

text \<open>\<open>str.isspace\<close> on the code points below 256.\<close>

definition is_space :: "char \<Rightarrow> bool" where
  "is_space c = (c \<in> set [CHR 0x09, CHR 0x0A, CHR 0x0B, CHR 0x0C, CHR 0x0D,
                           CHR 0x1C, CHR 0x1D, CHR 0x1E, CHR 0x1F, CHR 0x20,
                           CHR 0x85, CHR 0xA0])"

definition strip :: "string \<Rightarrow> string" where
  "strip s = rev (dropWhile is_space (rev (dropWhile is_space s)))"

text \<open>The line boundaries of \<open>str.splitlines\<close> below 256; \<open>\r\n\<close> is one boundary.\<close>

definition is_linebreak :: "char \<Rightarrow> bool" where
  "is_linebreak c = (c \<in> set [CHR 0x0A, CHR 0x0B, CHR 0x0C, CHR 0x0D,
                               CHR 0x1C, CHR 0x1D, CHR 0x1E, CHR 0x85])"

fun splitlines :: "string \<Rightarrow> string list" where
  "splitlines [] = []"
| "splitlines (c # cs) =
     (if is_linebreak c
      then (case cs of
              d # ds \<Rightarrow> if c = CHR 0x0D \<and> d = CHR 0x0A then [] # splitlines ds
                        else [] # splitlines cs
            | [] \<Rightarrow> [[]])
      else (case splitlines cs of
              [] \<Rightarrow> [[c]]
            | l # ls \<Rightarrow> (c # l) # ls))"

text \<open>\<open>s.split(sep)\<close> for a separator of one character: empty fields are kept.\<close>

fun split_char :: "char \<Rightarrow> string \<Rightarrow> string list" where
  "split_char sep [] = [[]]"
| "split_char sep (c # cs) =
     (if c = sep then [] # split_char sep cs
      else (case split_char sep cs of
              [] \<Rightarrow> [[c]]
            | l # ls \<Rightarrow> (c # l) # ls))"

text \<open>\<open>sep.join(xs)\<close>.\<close>

fun join :: "string \<Rightarrow> string list \<Rightarrow> string" where
  "join sep [] = []"
| "join sep [x] = x"
| "join sep (x # y # ys) = x @ sep @ join sep (y # ys)"

datatype error =
    SystemExit int
  | FileNotFoundError string
  | FileExistsError
  | NotADirectoryError
  | CalledProcessError int
  | IndexError

text \<open>\<open>xs[i]\<close> for a non-negative constant index: out of range raises.\<close>

definition index :: "'a list \<Rightarrow> nat \<Rightarrow> error + 'a" where
  "index xs i = (if i < length xs then Inr (xs ! i) else Inl IndexError)"

section \<open>geomqa.remove_niigz\<close>

text \<open>
  \<^verbatim>\<open>
  def remove_niigz(string):
      string = re.sub(r"\.nii.gz", "", string, re.I)
      string = re.sub(r"\.nii", "", string, re.I)
      return string
  \<close>
  The fourth positional parameter of \<open>re.sub\<close> is \<open>count\<close>, so \<open>re.I\<close> arrives
  there and the flags stay at zero: matching is case-sensitive and each call
  deletes at most two matches, wherever they are in the string.
\<close>

definition pat_niigz :: pattern where
  "pat_niigz = [Lit CHR ''.'', Lit CHR ''n'', Lit CHR ''i'', Lit CHR ''i'', Dot,
                Lit CHR ''g'', Lit CHR ''z'']"

definition pat_nii :: pattern where
  "pat_nii = [Lit CHR ''.'', Lit CHR ''n'', Lit CHR ''i'', Lit CHR ''i'']"

definition remove_niigz :: "string \<Rightarrow> string" where
  "remove_niigz string =
     (let string = re_sub pat_niigz string re_I;
          string = re_sub pat_nii string re_I
      in string)"

section \<open>Paths, processes and the file system\<close>

text \<open>
  A \<open>pathlib\<close> path is the list of its components. \<open>p / seg\<close> parses the string
  \<open>seg\<close>: it is cut at slashes, empty and \<open>.\<close> components are dropped, and a
  segment that starts with a slash replaces the left operand.
\<close>

type_synonym path = "string list"

definition parse_parts :: "string \<Rightarrow> string list" where
  "parse_parts seg = filter (\<lambda>x. x \<noteq> [] \<and> x \<noteq> ''.'') (split_char CHR ''/'' seg)"

definition path_div :: "path \<Rightarrow> string \<Rightarrow> path" where
  "path_div p seg =
     (if seg \<noteq> [] \<and> hd seg = CHR ''/'' then parse_parts seg else p @ parse_parts seg)"

text \<open>\<open>p.name\<close>: the last component, the empty string for the root.\<close>

definition name :: "path \<Rightarrow> string" where
  "name p = (if p = [] then [] else last p)"

text \<open>
  An argument of a command line is a string or a path object. A process either
  cannot be started because its executable is not found, or exits with a return
  code and the text it wrote to its standard output.
\<close>

datatype arg = Str string | Path path

type_synonym cmd = "arg list"

datatype proc_result = NotFound | Exited int string

text \<open>
  What the program does to the outside, in order. \<open>Run\<close> is a call of
  \<open>subprocess.run\<close>, \<open>Popen\<close> a call of \<open>subprocess.Popen\<close>; both are recorded
  when the call is made, whatever comes of it.
\<close>

datatype event =
    Stdout string
  | Stderr string
  | Mkdir path
  | Symlink path path
  | Run cmd
  | Popen cmd
  | Contour path path path

text \<open>
  The environment answers what the program cannot decide itself: the outcome of
  each external command and whether rendering the figure raises.
\<close>

record env =
  spawn :: "cmd \<Rightarrow> proc_result"
  render :: "path \<Rightarrow> path \<Rightarrow> path \<Rightarrow> error option"

text \<open>The file system as the program observes it: which paths exist, which are directories.\<close>

record world =
  lexists :: "path \<Rightarrow> bool"
  is_dir :: "path \<Rightarrow> bool"

text \<open>A computation yields the events it emitted and either an exception or a value.\<close>

type_synonym 'a io = "event list \<times> (error + 'a)"

definition bind :: "'a io \<Rightarrow> ('a \<Rightarrow> 'b io) \<Rightarrow> 'b io" where
  "bind m f =
     (case m of
        (t, Inl e) \<Rightarrow> (t, Inl e)
      | (t, Inr x) \<Rightarrow> (case f x of (t', r) \<Rightarrow> (t @ t', r)))"

fun run_all :: "unit io list \<Rightarrow> unit io" where
  "run_all [] = ([], Inr ())"
| "run_all (s # ss) = bind s (\<lambda>_. run_all ss)"

definition print :: "string \<Rightarrow> unit io" where
  "print s = ([Stdout (s @ ''\<newline>'')], Inr ())"

definition errno_2 :: string where
  "errno_2 = ''[Errno 2] No such file or directory''"

text \<open>\<open>subprocess.run(cmd, check=True)\<close>: blocks until the process has exited.\<close>

definition sp_run_check :: "env \<Rightarrow> cmd \<Rightarrow> unit io" where
  "sp_run_check e c =
     (case spawn e c of
        NotFound \<Rightarrow> ([Run c], Inl (FileNotFoundError errno_2))
      | Exited rc out \<Rightarrow>
          if rc = 0 then ([Run c], Inr ()) else ([Run c], Inl (CalledProcessError rc)))"

text \<open>\<open>subprocess.Popen(cmd, ...)\<close>: starts the process and returns at once.\<close>

definition sp_popen :: "env \<Rightarrow> cmd \<Rightarrow> unit io" where
  "sp_popen e c =
     (case spawn e c of
        NotFound \<Rightarrow> ([Popen c], Inl (FileNotFoundError errno_2))
      | Exited rc out \<Rightarrow> ([Popen c], Inr ()))"

text \<open>
  \<open>Path.mkdir(parents=True, exist_ok=True)\<close>, by recursion on the reversed
  component list: an existing directory is accepted, an existing entry of another
  kind raises, a missing parent is created first. The root always exists.
\<close>

definition create_dir :: "world \<Rightarrow> path \<Rightarrow> world" where
  "create_dir w p = w\<lparr>lexists := (lexists w)(p := True), is_dir := (is_dir w)(p := True)\<rparr>"

fun mkdir_rev :: "world \<Rightarrow> string list \<Rightarrow> error + world" where
  "mkdir_rev w [] = Inr w"
| "mkdir_rev w (c # rp) =
     (if lexists w (rev (c # rp))
      then (if is_dir w (rev (c # rp)) then Inr w else Inl FileExistsError)
      else if rp = [] \<or> is_dir w (rev rp) then Inr (create_dir w (rev (c # rp)))
      else if lexists w (rev rp) then Inl NotADirectoryError
      else (case mkdir_rev w rp of
              Inl e \<Rightarrow> Inl e
            | Inr w' \<Rightarrow> Inr (create_dir w' (rev (c # rp)))))"

definition mkdir :: "world \<Rightarrow> path \<Rightarrow> world io" where
  "mkdir w p = ([Mkdir p], mkdir_rev w (rev p))"

text \<open>\<open>Path.symlink_to(target)\<close>: the link must not exist yet, its directory must.\<close>

definition symlink_to :: "world \<Rightarrow> path \<Rightarrow> path \<Rightarrow> world io" where
  "symlink_to w lnk target =
     ([Symlink lnk target],
      if lexists w lnk then Inl FileExistsError
      else if \<not> (butlast lnk = [] \<or> is_dir w (butlast lnk)) then Inl (FileNotFoundError errno_2)
      else Inr (w\<lparr>lexists := (lexists w)(lnk := True),
                   is_dir := (is_dir w)(lnk := is_dir w target)\<rparr>))"

section \<open>geomqa.vercheck\<close>

text \<open>
  \<^verbatim>\<open>
  def get_mrtrix_ver():
      try:
          sp_out = sp.run(["mrinfo", "-version"], capture_output=True, text=True, check=True)
      except FileNotFoundError:
          sys.stderr.write("ERROR: mrinfo (an mrtrix command) used to check "
                           "version is not in your path, exiting\n")
          sys.exit(1)
      mrinfo_out = sp_out.stdout.strip()
      mrinfo_out_first_line = mrinfo_out.splitlines()[0]
      # First line should be of the form == mrinfo 3.0.1-26-g0f28beae ==
      return mrinfo_out_first_line.split(" ")[2]
  \<close>
\<close>

definition mrinfo_cmd :: cmd where
  "mrinfo_cmd = [Str ''mrinfo'', Str ''-version'']"

definition mrinfo_missing_msg :: string where
  "mrinfo_missing_msg =
     ''ERROR: mrinfo (an mrtrix command) used to check version is not in your path, exiting\<newline>''"

definition parse_mrinfo :: "string \<Rightarrow> error + string" where
  "parse_mrinfo out =
     (let mrinfo_out = strip out in
      case index (splitlines mrinfo_out) 0 of
        Inl e \<Rightarrow> Inl e
      | Inr mrinfo_out_first_line \<Rightarrow> index (split_char CHR '' '' mrinfo_out_first_line) 2)"

definition get_mrtrix_ver :: "env \<Rightarrow> string io" where
  "get_mrtrix_ver e =
     (case spawn e mrinfo_cmd of
        NotFound \<Rightarrow> ([Run mrinfo_cmd, Stderr mrinfo_missing_msg], Inl (SystemExit 1))
      | Exited rc out \<Rightarrow>
          if rc \<noteq> 0 then ([Run mrinfo_cmd], Inl (CalledProcessError rc))
          else ([Run mrinfo_cmd], parse_mrinfo out))"

text \<open>
  \<^verbatim>\<open>
  def get_niftyreg_ver(niftyreg_dp):
      if not niftyreg_dp.is_dir():
          raise FileNotFoundError("niftyreg not found")
      reg_aladin_fp = niftyreg_dp / "reg_aladin"
      sp_out = sp.run([reg_aladin_fp, "-version"], capture_output=True, text=True)
      return sp_out.stdout.strip()
  \<close>
  Here \<open>sp.run\<close> has no \<open>check\<close>, so the return code is not looked at; a missing
  executable still raises from \<open>sp.run\<close> itself.
\<close>

definition reg_aladin_version_cmd :: "path \<Rightarrow> cmd" where
  "reg_aladin_version_cmd niftyreg_dp = [Path (path_div niftyreg_dp ''reg_aladin''), Str ''-version'']"

definition get_niftyreg_ver :: "env \<Rightarrow> world \<Rightarrow> path \<Rightarrow> string io" where
  "get_niftyreg_ver e w niftyreg_dp =
     (if \<not> is_dir w niftyreg_dp then ([], Inl (FileNotFoundError ''niftyreg not found''))
      else (case spawn e (reg_aladin_version_cmd niftyreg_dp) of
              NotFound \<Rightarrow>
                ([Run (reg_aladin_version_cmd niftyreg_dp)], Inl (FileNotFoundError errno_2))
            | Exited rc out \<Rightarrow>
                ([Run (reg_aladin_version_cmd niftyreg_dp)], Inr (strip out))))"

text \<open>
  \<^verbatim>\<open>
  def check_lib_ver(lib_name, lib_ver, expected_lib_ver_list, any_ver):
      if lib_ver in expected_lib_ver_list:
          print("** PASS version check on %s (%s)" % (lib_name, lib_ver))
      else:
          print("** FAIL using non-validated %s version" % lib_name)
          print("*** expected %s, got %s" % (" or ".join(expected_lib_ver_list), lib_ver))
          if not any_ver:
              sys.stderr.write("** exiting\n")
              sys.exit(1)
  \<close>
\<close>

definition check_lib_ver :: "string \<Rightarrow> string \<Rightarrow> string list \<Rightarrow> bool \<Rightarrow> unit io" where
  "check_lib_ver lib_name lib_ver expected_lib_ver_list any_ver =
     (if lib_ver \<in> set expected_lib_ver_list
      then print (''** PASS version check on '' @ lib_name @ '' ('' @ lib_ver @ '')'')
      else bind (print (''** FAIL using non-validated '' @ lib_name @ '' version'')) (\<lambda>_.
           bind (print (''*** expected '' @ join '' or '' expected_lib_ver_list
                        @ '', got '' @ lib_ver)) (\<lambda>_.
           if \<not> any_ver then ([Stderr ''** exiting\<newline>''], Inl (SystemExit 1))
           else ([], Inr ()))))"

text \<open>
  The version gate at the start of \<open>main\<close>. The allowed versions come from
  \<open>geomqa.config\<close> and are parameters here.
  \<^verbatim>\<open>
  print("* checking versions of external software")
  vercheck.check_lib_ver("MRtrix", vercheck.get_mrtrix_ver(), config.MRTRIX_VERSIONS,
                         args.any_version)
  niftyreg_dp = args.niftyreg
  vercheck.check_lib_ver("niftyreg", vercheck.get_niftyreg_ver(niftyreg_dp),
                         config.NIFTYREG_VERSIONS, args.any_version)
  \<close>
\<close>

definition check_versions :: "env \<Rightarrow> world \<Rightarrow> string list \<Rightarrow> string list \<Rightarrow> path \<Rightarrow> bool \<Rightarrow> unit io" where
  "check_versions e w MRTRIX_VERSIONS NIFTYREG_VERSIONS niftyreg_dp any_version =
     bind (print ''* checking versions of external software'') (\<lambda>_.
     bind (get_mrtrix_ver e) (\<lambda>mrtrix_ver.
     bind (check_lib_ver ''MRtrix'' mrtrix_ver MRTRIX_VERSIONS any_version) (\<lambda>_.
     bind (get_niftyreg_ver e w niftyreg_dp) (\<lambda>niftyreg_ver.
     check_lib_ver ''niftyreg'' niftyreg_ver NIFTYREG_VERSIONS any_version))))"

section \<open>geomqa.main: one pass of the loop over the input files\<close>

text \<open>
  What \<open>main\<close> fixes before the loop: the four niftyreg executables under
  \<open>niftyreg_dp\<close>, the reference CT and its mask beside the module file (in
  \<open>module_dp\<close>), and the resolved output directory.
\<close>

record tools =
  reg_aladin_fp :: path
  reg_f3d_fp :: path
  reg_resample_fp :: path
  reg_transform_fp :: path
  ct_fp :: path
  ctmask_fp :: path
  out_dp :: path

definition make_tools :: "path \<Rightarrow> path \<Rightarrow> path \<Rightarrow> tools" where
  "make_tools niftyreg_dp module_dp out =
     \<lparr>reg_aladin_fp = path_div niftyreg_dp ''reg_aladin'',
      reg_f3d_fp = path_div niftyreg_dp ''reg_f3d'',
      reg_resample_fp = path_div niftyreg_dp ''reg_resample'',
      reg_transform_fp = path_div niftyreg_dp ''reg_transform'',
      ct_fp = path_div module_dp ''ct.nii.gz'',
      ctmask_fp = path_div module_dp ''ctmask.nii.gz'',
      out_dp = out\<rparr>"

text \<open>The paths \<open>main\<close> derives for one input file \<open>mri_fp\<close> (already resolved).\<close>

record job =
  results_dp :: path
  ct_lnk_fp :: path
  rigid_fp :: path
  affine_fp :: path
  nonrigid_fp :: path
  cpp_fp :: path
  disp_field_fp :: path
  mag_displ_field_ct_fp :: path
  mr2ct_deformation_fp :: path
  ct2mr_deformation_fp :: path
  mag_displ_field_mri_fp :: path
  fig_fp :: path

definition derive_paths :: "path \<Rightarrow> path \<Rightarrow> job" where
  "derive_paths out mri_fp =
     (let dp = path_div out (remove_niigz (name mri_fp)) in
      \<lparr>results_dp = dp,
       ct_lnk_fp = path_div dp ''ct.nii.gz'',
       rigid_fp = path_div dp ''mr2ct_rigid.nii.gz'',
       affine_fp = path_div dp ''mr2ct_rigid.aff'',
       nonrigid_fp = path_div dp ''mr2ct_nonrigid.nii.gz'',
       cpp_fp = path_div dp ''mr2ct_cpp.nii.gz'',
       disp_field_fp = path_div dp ''displ_field_ct.nii.gz'',
       mag_displ_field_ct_fp = path_div dp ''mag_displ_field_ct.nii.gz'',
       mr2ct_deformation_fp = path_div dp ''mr2ct_deformation.nii.gz'',
       ct2mr_deformation_fp = path_div dp ''ct2mr_deformation.nii.gz'',
       mag_displ_field_mri_fp = path_div dp ''mag_displ_field_mri.nii.gz'',
       fig_fp = path_div out (remove_niigz (name mri_fp) @ ''_distortion_results.pdf'')\<rparr>)"

text \<open>The files of a job: the link, the nine volumes and transforms, the figure.\<close>

definition job_files :: "job \<Rightarrow> path list" where
  "job_files j =
     [ct_lnk_fp j, rigid_fp j, affine_fp j, nonrigid_fp j, cpp_fp j, disp_field_fp j,
      mag_displ_field_ct_fp j, mr2ct_deformation_fp j, ct2mr_deformation_fp j,
      mag_displ_field_mri_fp j, fig_fp j]"


subsection \<open>The command lines\<close>

definition rigid_cmd :: "tools \<Rightarrow> path \<Rightarrow> job \<Rightarrow> cmd" where
  "rigid_cmd s mri_fp j =
     [Path (reg_aladin_fp s), Str ''-ref'', Path (ct_fp s), Str ''-flo'', Path mri_fp,
      Str ''-rmask'', Path (ctmask_fp s), Str ''-res'', Path (rigid_fp j),
      Str ''-rigOnly'', Str ''-aff'', Path (affine_fp j)]"

definition nonrigid_cmd :: "tools \<Rightarrow> job \<Rightarrow> cmd" where
  "nonrigid_cmd s j =
     [Path (reg_f3d_fp s), Str ''-ref'', Path (ct_fp s), Str ''-flo'', Path (rigid_fp j),
      Str ''-rmask'', Path (ctmask_fp s), Str ''-res'', Path (nonrigid_fp j),
      Str ''-cpp'', Path (cpp_fp j), Str ''-be'', Str ''0.005'', Str ''-maxit'', Str ''500'',
      Str ''-sx'', Str ''15'', Str ''-ln'', Str ''4'', Str ''-lp'', Str ''2'']"

definition mrview_cmd :: "tools \<Rightarrow> job \<Rightarrow> cmd" where
  "mrview_cmd s j =
     [Str ''mrview'', Path (ct_fp s), Str ''-voxel'', Str ''271,257,134'', Str ''-mode'', Str ''2'',
      Str ''-intensity_range'', Str ''1000,1500'',
      Str ''-overlay.load'', Path (rigid_fp j), Str ''-overlay.opacity'', Str ''0.6'',
      Str ''-overlay.colour'', Str ''1,0,0'', Str ''-overlay.intensity'', Str ''200,4095'',
      Str ''-overlay.threshold_min'', Str ''200'',
      Str ''-overlay.load'', Path (nonrigid_fp j), Str ''-overlay.opacity'', Str ''0.6'',
      Str ''-overlay.colour'', Str ''0,0,1'', Str ''-overlay.intensity'', Str ''200,4095'',
      Str ''-overlay.threshold_min'', Str ''200'']"

definition disp_cmd :: "tools \<Rightarrow> job \<Rightarrow> cmd" where
  "disp_cmd s j =
     [Path (reg_transform_fp s), Str ''-ref'', Path (ct_fp s), Str ''-disp'', Path (cpp_fp j),
      Path (disp_field_fp j)]"

definition mag_displ_field_cmd :: "job \<Rightarrow> cmd" where
  "mag_displ_field_cmd j =
     [Str ''mrmath'', Str ''-axis'', Str ''4'', Path (disp_field_fp j), Str ''norm'',
      Path (mag_displ_field_ct_fp j)]"

definition compose_cmd :: "tools \<Rightarrow> job \<Rightarrow> cmd" where
  "compose_cmd s j =
     [Path (reg_transform_fp s), Str ''-ref'', Path (ct_fp s), Str ''-comp'', Path (affine_fp j),
      Path (cpp_fp j), Path (mr2ct_deformation_fp j)]"

definition invert_cmd :: "tools \<Rightarrow> path \<Rightarrow> job \<Rightarrow> cmd" where
  "invert_cmd s mri_fp j =
     [Path (reg_transform_fp s), Str ''-ref'', Path (ct_fp s), Str ''-invNrr'',
      Path (mr2ct_deformation_fp j), Path mri_fp, Path (ct2mr_deformation_fp j)]"

definition resample_cmd :: "tools \<Rightarrow> path \<Rightarrow> job \<Rightarrow> cmd" where
  "resample_cmd s mri_fp j =
     [Path (reg_resample_fp s), Str ''-ref'', Path mri_fp, Str ''-flo'',
      Path (mag_displ_field_ct_fp j), Str ''-trans'', Path (ct2mr_deformation_fp j),
      Str ''-res'', Path (mag_displ_field_mri_fp j), Str ''-inter'', Str ''1'']"

text \<open>\<open>contour(b_fp, c_fp, fig_fp)\<close> renders the figure; whether it raises is the environment's.\<close>

definition contour :: "env \<Rightarrow> path \<Rightarrow> path \<Rightarrow> path \<Rightarrow> unit io" where
  "contour e b_fp c_fp fig =
     ([Contour b_fp c_fp fig],
      case render e b_fp c_fp fig of None \<Rightarrow> Inr () | Some x \<Rightarrow> Inl x)"

subsection \<open>The loop body\<close>

text \<open>
  The body of \<open>for mri_file in sorted(args.n)\<close>, in the order of the source: the
  results directory, the link to the CT, then the commands. An exception ends
  the pass where it is raised.
\<close>

definition command_steps :: "env \<Rightarrow> tools \<Rightarrow> path \<Rightarrow> job \<Rightarrow> unit io list" where
  "command_steps e s mri_fp j =
       [print ''** registering MRI to CT'',
        print ''*** rigid registration with reg_aladin'',
        sp_run_check e (rigid_cmd s mri_fp j),
        print ''*** non-rigid registration with reg_f3d'',
        sp_run_check e (nonrigid_cmd s j),
        print ''*** displaying registered images with FSLeyes'',
        sp_popen e (mrview_cmd s j),
        print ''** calculating displacement field in CT-space with reg_transform'',
        sp_run_check e (disp_cmd s j),
        print ''** calculating root mean square of displacement field in CT-space'',
        sp_run_check e (mag_displ_field_cmd j),
        print ''** transforming results into MRI space'',
        print ''*** composing mr2ct_rigid.aff and mr2ct_cpp.nii.gz with reg_transform'',
        sp_run_check e (compose_cmd s j),
        print ''*** inverting composed transformation with reg_transform'',
        sp_run_check e (invert_cmd s mri_fp j),
        print ''*** resampling into MRI space with reg_resample'',
        sp_run_check e (resample_cmd s mri_fp j),
        print ''** plotting results'',
        contour e mri_fp (mag_displ_field_mri_fp j) (fig_fp j)]"

definition run_commands :: "env \<Rightarrow> tools \<Rightarrow> path \<Rightarrow> job \<Rightarrow> unit io" where
  "run_commands e s mri_fp j = run_all (command_steps e s mri_fp j)"

definition process_file :: "env \<Rightarrow> world \<Rightarrow> tools \<Rightarrow> path \<Rightarrow> unit io" where
  "process_file e w s mri_fp =
     (let j = derive_paths (out_dp s) mri_fp in
      bind (print (''* processing '' @ name mri_fp)) (\<lambda>_.
      bind (mkdir w (results_dp j)) (\<lambda>w.
      bind (symlink_to w (ct_lnk_fp j) (ct_fp s)) (\<lambda>w.
      run_commands e s mri_fp j))))"

text \<open>
  The calls of \<open>sp.run\<close> and \<open>sp.Popen\<close> written in the loop body, in the order of
  the source, and the command lines handed to \<open>sp.run\<close> among them.
\<close>

definition call_script :: "tools \<Rightarrow> path \<Rightarrow> job \<Rightarrow> event list" where
  "call_script s mri_fp j =
     [Run (rigid_cmd s mri_fp j), Run (nonrigid_cmd s j), Popen (mrview_cmd s j),
      Run (disp_cmd s j), Run (mag_displ_field_cmd j), Run (compose_cmd s j),
      Run (invert_cmd s mri_fp j), Run (resample_cmd s mri_fp j)]"

definition blocking_cmds :: "tools \<Rightarrow> path \<Rightarrow> job \<Rightarrow> cmd list" where
  "blocking_cmds s mri_fp j =
     [rigid_cmd s mri_fp j, nonrigid_cmd s j, disp_cmd s j, mag_displ_field_cmd j,
      compose_cmd s j, invert_cmd s mri_fp j, resample_cmd s mri_fp j]"

text \<open>The blocking calls and the detached calls among the events of a pass.\<close>

fun blocking_calls :: "event list \<Rightarrow> cmd list" where
  "blocking_calls [] = []"
| "blocking_calls (Run c # es) = c # blocking_calls es"
| "blocking_calls (x # es) = blocking_calls es"

fun calls :: "event list \<Rightarrow> event list" where
  "calls [] = []"
| "calls (Run c # es) = Run c # calls es"
| "calls (Popen c # es) = Popen c # calls es"
| "calls (x # es) = calls es"

fun detached_calls :: "event list \<Rightarrow> cmd list" where
  "detached_calls [] = []"
| "detached_calls (Popen c # es) = c # detached_calls es"
| "detached_calls (x # es) = detached_calls es"

text \<open>
  The flag interface of the external tools: the path after \<open>-res\<close>, \<open>-aff\<close> or
  \<open>-cpp\<close> is written; a command without these flags (\<open>reg_transform\<close>, \<open>mrmath\<close>)
  writes its last argument. Every other path after the executable is read.
\<close>

fun flag_values :: "string list \<Rightarrow> cmd \<Rightarrow> path list" where
  "flag_values fs [] = []"
| "flag_values fs [a] = []"
| "flag_values fs (Str f # Path p # rest) =
     (if f \<in> set fs then p # flag_values fs rest else flag_values fs (Path p # rest))"
| "flag_values fs (a # b # rest) = flag_values fs (b # rest)"

fun path_args :: "cmd \<Rightarrow> path list" where
  "path_args [] = []"
| "path_args (Path p # rest) = p # path_args rest"
| "path_args (Str x # rest) = path_args rest"

definition outputs :: "cmd \<Rightarrow> path list" where
  "outputs c =
     (let named = flag_values [''-res'', ''-aff'', ''-cpp''] c in
      if named \<noteq> [] then named
      else (case rev c of Path p # rest \<Rightarrow> [p] | _ \<Rightarrow> []))"

definition inputs :: "cmd \<Rightarrow> path list" where
  "inputs c = filter (\<lambda>p. p \<notin> set (outputs c)) (path_args (tl c))"

text \<open>\<open>feeds c1 c2\<close>: the command \<open>c2\<close> reads a path that \<open>c1\<close> writes.\<close>

definition feeds :: "cmd \<Rightarrow> cmd \<Rightarrow> bool" where
  "feeds c1 c2 = (\<exists>p \<in> set (outputs c1). p \<in> set (inputs c2))"

section \<open>The wording of the specification\<close>

text \<open>
  Tokens delimited by whitespace, as \<open>str.split()\<close> without a separator cuts them:
  runs of whitespace separate, and no token is empty.
\<close>

fun ws_tokens :: "string \<Rightarrow> string list" where
  "ws_tokens [] = []"
| "ws_tokens (c # cs) =
     (if is_space c then ws_tokens cs
      else (case cs of
              [] \<Rightarrow> [[c]]
            | d # ds \<Rightarrow>
                if is_space d then [c] # ws_tokens cs
                else (case ws_tokens cs of
                        [] \<Rightarrow> [[c]]
                      | l # ls \<Rightarrow> (c # l) # ls)))"

text \<open>The 3rd whitespace-delimited token of the first line of the output.\<close>

definition third_token_of_first_line :: "string \<Rightarrow> error + string" where
  "third_token_of_first_line out =
     (case index (splitlines out) 0 of
        Inl e \<Rightarrow> Inl e
      | Inr l \<Rightarrow> index (ws_tokens l) 2)"

text \<open>
  A name whose suffix is \<open>.nii\<close> or \<open>.nii.gz\<close> in upper or mixed case: it ends with
  the suffix when letters are compared without case, and not when compared exactly.
\<close>

definition ascii_lower :: "char \<Rightarrow> char" where
  "ascii_lower c =
     (let n = (of_char c :: nat) in if 65 \<le> n \<and> n \<le> 90 then char_of (n + 32) else c)"

definition ends_with :: "string \<Rightarrow> string \<Rightarrow> bool" where
  "ends_with sfx s = (length sfx \<le> length s \<and> drop (length s - length sfx) s = sfx)"

definition ends_with_nocase :: "string \<Rightarrow> string \<Rightarrow> bool" where
  "ends_with_nocase sfx s = ends_with sfx (map ascii_lower s)"

definition other_case_nifti_suffix :: "string \<Rightarrow> bool" where
  "other_case_nifti_suffix s =
     ((ends_with_nocase ''.nii'' s \<and> \<not> ends_with ''.nii'' s) \<or>
      (ends_with_nocase ''.nii.gz'' s \<and> \<not> ends_with ''.nii.gz'' s))"

section \<open>Concrete environments\<close>

text \<open>Every command runs and exits with code 0, printing nothing; rendering succeeds.\<close>

definition all_succeed :: env where
  "all_succeed = \<lparr>spawn = (\<lambda>c. Exited 0 []), render = (\<lambda>b c f. None)\<rparr>"

text \<open>No executable is found.\<close>

definition nothing_installed :: env where
  "nothing_installed = \<lparr>spawn = (\<lambda>c. NotFound), render = (\<lambda>b c f. None)\<rparr>"

text \<open>Every command prints a banner with two spaces after the first token.\<close>

definition wide_banner :: env where
  "wide_banner =
     \<lparr>spawn = (\<lambda>c. Exited 0 ''==  mrinfo 3.0.1 ==\<newline>''), render = (\<lambda>b c f. None)\<rparr>"

text \<open>Every command prints a first line that ends with a tab, and a second line.\<close>

definition tab_banner :: env where
  "tab_banner =
     \<lparr>spawn = (\<lambda>c. Exited 0 (''== mrinfo 3.0.1'' @ CHR 0x09 # ''\<newline>64 bit release version'')),
      render = (\<lambda>b c f. None)\<rparr>"

text \<open>
  \<open>mrinfo\<close> prints its banner in the form the source expects, every other command
  prints a version and a newline.
\<close>

definition usual_tools :: env where
  "usual_tools =
     \<lparr>spawn = (\<lambda>c. if c = mrinfo_cmd
                     then Exited 0 ''== mrinfo 3.0.1-26-g0f28beae ==\<newline>64 bit release version''
                     else Exited 0 ''v1.5.58\<newline>''),
      render = (\<lambda>b c f. None)\<rparr>"

text \<open>The tools of a run with niftyreg in \<open>/opt/niftyreg\<close>, the module in \<open>/pkg\<close>, output to \<open>/out\<close>.\<close>

definition example_tools :: tools where
  "example_tools = make_tools [''opt'', ''niftyreg''] [''pkg''] [''out'']"

text \<open>A file system with nothing but the root, and one where only \<open>/opt\<close> is a directory.\<close>

definition empty_world :: world where
  "empty_world = \<lparr>lexists = (\<lambda>p. False), is_dir = (\<lambda>p. False)\<rparr>"

definition opt_world :: world where
  "opt_world = \<lparr>lexists = (\<lambda>p. p = [''opt'']), is_dir = (\<lambda>p. p = [''opt''])\<rparr>"

text \<open>The file system a finished pass over \<open>mri.nii.gz\<close> leaves in \<open>/out\<close>.\<close>

definition second_run_world :: world where
  "second_run_world =
     \<lparr>lexists = (\<lambda>p. p \<in> set [[''out''], [''out'', ''mri''], [''out'', ''mri'', ''ct.nii.gz'']]),
      is_dir = (\<lambda>p. p \<in> set [[''out''], [''out'', ''mri'']])\<rparr>"

section \<open>The version gate\<close>

lemma sublist_join: "x \<in> set xs \<Longrightarrow> sublist x (join sep xs)"
proof (induction sep xs rule: join.induct)
  case (1 sep)
  then show ?case by simp
next
  case (2 sep y)
  then show ?case by simp
next
  case (3 sep y z zs)
  show ?case
  proof (cases "x = y")
    case True
    then show ?thesis by (simp add: sublist_def) (metis append_Nil)
  next
    case False
    then have "sublist x (join sep (z # zs))" using 3 by simp
    then obtain ps ss where "join sep (z # zs) = ps @ x @ ss" by (auto simp: sublist_def)
    then have "join sep (y # z # zs) = (y @ sep @ ps) @ x @ ss" by simp
    then show ?thesis unfolding sublist_def by blast
  qed
qed

text \<open>
  C1. \<open>check_lib_ver\<close> prints the line \<open>** PASS version check on NAME (VERSION)\<close>
  and returns exactly when the actual version is a member of the allowed list
  (string equality, so case matters). Otherwise it prints
  \<open>** FAIL using non-validated NAME version\<close> and
  \<open>*** expected A1 or A2 or ..., got VERSION\<close>, a line in which every allowed
  version and the actual version occur; then, when the permissive flag is false,
  it writes \<open>** exiting\<close> to the standard error stream and raises \<open>SystemExit\<close> with
  code 1, and when the flag is true it returns.
\<close>

theorem check_lib_ver_pass_fail:
  "((check_lib_ver lib_name lib_ver allowed permissive
       = ([Stdout (''** PASS version check on '' @ lib_name @ '' ('' @ lib_ver @ '')\<newline>'')],
          Inr ()))
     = (lib_ver \<in> set allowed))
   \<and> (lib_ver \<notin> set allowed \<longrightarrow>
        check_lib_ver lib_name lib_ver allowed permissive
          = ([Stdout (''** FAIL using non-validated '' @ lib_name @ '' version\<newline>''),
              Stdout (''*** expected '' @ join '' or '' allowed @ '', got '' @ lib_ver
                      @ ''\<newline>'')]
             @ (if permissive then [] else [Stderr ''** exiting\<newline>'']),
             if permissive then Inr () else Inl (SystemExit 1)))
   \<and> (\<forall>x \<in> set allowed. sublist x (join '' or '' allowed))
   \<and> join '' or '' [] = [] \<and> join '' or '' [a] = a
   \<and> join '' or '' (a # b # others) = a @ '' or '' @ join '' or '' (b # others)"
proof -
  have 1: "(check_lib_ver lib_name lib_ver allowed permissive
       = ([Stdout (''** PASS version check on '' @ lib_name @ '' ('' @ lib_ver @ '')\<newline>'')],
          Inr ()))
     = (lib_ver \<in> set allowed)"
    by (simp add: check_lib_ver_def print_def bind_def)
  have 2: "lib_ver \<notin> set allowed \<longrightarrow>
        check_lib_ver lib_name lib_ver allowed permissive
          = ([Stdout (''** FAIL using non-validated '' @ lib_name @ '' version\<newline>''),
              Stdout (''*** expected '' @ join '' or '' allowed @ '', got '' @ lib_ver
                      @ ''\<newline>'')]
             @ (if permissive then [] else [Stderr ''** exiting\<newline>'']),
             if permissive then Inr () else Inl (SystemExit 1))"
    by (simp add: check_lib_ver_def print_def bind_def)
  have 3: "\<forall>x \<in> set allowed. sublist x (join '' or '' allowed)"
    using sublist_join by blast
  show ?thesis using 1 2 3 by simp
qed

text \<open>
  C1 at the three calls of the repository's test: version 2.0.0 against 1.0.0 and
  1.0.1, not permissive and permissive, and against 1.0.0 and 2.0.0.
\<close>

theorem check_lib_ver_pass_fail_witness:
  "''2.0.0'' \<notin> set [''1.0.0'', ''1.0.1'']
   \<and> check_lib_ver ''lib_a'' ''2.0.0'' [''1.0.0'', ''1.0.1''] False
       = ([Stdout ''** FAIL using non-validated lib_a version\<newline>'',
           Stdout ''*** expected 1.0.0 or 1.0.1, got 2.0.0\<newline>'',
           Stderr ''** exiting\<newline>''], Inl (SystemExit 1))
   \<and> check_lib_ver ''lib_a'' ''2.0.0'' [''1.0.0'', ''1.0.1''] True
       = ([Stdout ''** FAIL using non-validated lib_a version\<newline>'',
           Stdout ''*** expected 1.0.0 or 1.0.1, got 2.0.0\<newline>''], Inr ())
   \<and> ''2.0.0'' \<in> set [''1.0.0'', ''2.0.0'']
   \<and> check_lib_ver ''lib_a'' ''2.0.0'' [''1.0.0'', ''2.0.0''] True
       = ([Stdout ''** PASS version check on lib_a (2.0.0)\<newline>''], Inr ())
   \<and> sublist ''1.0.1'' (join '' or '' [''1.0.0'', ''1.0.1''])"
proof -
  have h: "''2.0.0'' \<notin> set [''1.0.0'', ''1.0.1'']" by simp
  have g: "''2.0.0'' \<in> set [''1.0.0'', ''2.0.0'']" by simp
  have m: "''1.0.1'' \<in> set [''1.0.0'', ''1.0.1'']" by simp
  have j: "join '' or '' [''1.0.0'', ''1.0.1''] = ''1.0.0 or 1.0.1''" by simp
  note f = check_lib_ver_pass_fail[of "''lib_a''" "''2.0.0''" "[''1.0.0'', ''1.0.1'']" False]
  note t = check_lib_ver_pass_fail[of "''lib_a''" "''2.0.0''" "[''1.0.0'', ''1.0.1'']" True]
  note q = check_lib_ver_pass_fail[of "''lib_a''" "''2.0.0''" "[''1.0.0'', ''2.0.0'']" True]
  have a: "check_lib_ver ''lib_a'' ''2.0.0'' [''1.0.0'', ''1.0.1''] False
       = ([Stdout ''** FAIL using non-validated lib_a version\<newline>'',
           Stdout ''*** expected 1.0.0 or 1.0.1, got 2.0.0\<newline>'',
           Stderr ''** exiting\<newline>''], Inl (SystemExit 1))"
    using f h j by simp
  have b: "check_lib_ver ''lib_a'' ''2.0.0'' [''1.0.0'', ''1.0.1''] True
       = ([Stdout ''** FAIL using non-validated lib_a version\<newline>'',
           Stdout ''*** expected 1.0.0 or 1.0.1, got 2.0.0\<newline>''], Inr ())"
    using t h j by simp
  have c: "check_lib_ver ''lib_a'' ''2.0.0'' [''1.0.0'', ''2.0.0''] True
       = ([Stdout ''** PASS version check on lib_a (2.0.0)\<newline>''], Inr ())"
    using q g by simp
  have d: "sublist ''1.0.1'' (join '' or '' [''1.0.0'', ''1.0.1''])"
    using f m by blast
  show ?thesis using h g a b c d by blast
qed

section \<open>Stripping the NIfTI suffix\<close>

lemma remove_niigz_unfold:
  "remove_niigz s = sub_n pat_nii (Suc (Suc 0)) (sub_n pat_niigz (Suc (Suc 0)) s)"
  by (simp add: remove_niigz_def re_sub_def re_I_def numeral_2_eq_2)


text \<open>
  C3. Stripping is meant to be idempotent and to act on the suffix. On the four
  names of the repository's test the code does what is claimed: \<open>a\<close> and \<open>a.b\<close>
  are kept, \<open>a.nii\<close> and \<open>a.nii.gz\<close> give \<open>a\<close>. On \<open>a.n.niiii\<close>, a name without a
  NIfTI suffix, the code deletes the \<open>.nii\<close> inside the name and returns \<open>a.nii\<close>;
  a second call returns \<open>a\<close>. The docstring of the function says that the suffix
  is removed from the end of a file name.
\<close>

theorem remove_niigz_inner_match:
  "remove_niigz ''a'' = ''a'' \<and> remove_niigz ''a.b'' = ''a.b''
   \<and> remove_niigz ''a.nii'' = ''a'' \<and> remove_niigz ''a.nii.gz'' = ''a''
   \<and> \<not> ends_with ''.nii'' ''a.n.niiii'' \<and> \<not> ends_with ''.nii.gz'' ''a.n.niiii''
   \<and> remove_niigz ''a.n.niiii'' = ''a.nii''
   \<and> remove_niigz (remove_niigz ''a.n.niiii'') = ''a''
   \<and> remove_niigz (remove_niigz ''a.n.niiii'') \<noteq> remove_niigz ''a.n.niiii''"
  by (simp add: remove_niigz_unfold pat_nii_def pat_niigz_def ends_with_def)

text \<open>
  C9. The claim is that a name whose NIfTI suffix is in upper or mixed case is
  returned unchanged. The code keeps \<open>a.NII.GZ\<close> and \<open>a.Nii\<close>. The name
  \<open>a.nii.GZ\<close> ends with \<open>.nii.gz\<close> in mixed case, and the code returns \<open>a.GZ\<close>:
  the flag \<open>re.I\<close> is handed to \<open>re.sub\<close> as its count, so the first pattern does
  not match the suffix without regard to case, and the second pattern deletes
  the lower-case \<open>.nii\<close> in front of \<open>.GZ\<close>.
\<close>

theorem remove_niigz_mixed_case:
  "other_case_nifti_suffix ''a.nii.GZ'' \<and> remove_niigz ''a.nii.GZ'' = ''a.GZ''
   \<and> remove_niigz ''a.nii.GZ'' \<noteq> ''a.nii.GZ''
   \<and> other_case_nifti_suffix ''a.NII.GZ'' \<and> remove_niigz ''a.NII.GZ'' = ''a.NII.GZ''
   \<and> other_case_nifti_suffix ''a.Nii'' \<and> remove_niigz ''a.Nii'' = ''a.Nii''"
proof -
  have "other_case_nifti_suffix ''a.nii.GZ''" "other_case_nifti_suffix ''a.NII.GZ''"
       "other_case_nifti_suffix ''a.Nii''"
    by code_simp+
  moreover have "remove_niigz ''a.nii.GZ'' = ''a.GZ''" "remove_niigz ''a.NII.GZ'' = ''a.NII.GZ''"
       "remove_niigz ''a.Nii'' = ''a.Nii''"
    by (simp_all add: remove_niigz_unfold pat_nii_def pat_niigz_def)
  ultimately show ?thesis by simp
qed

section \<open>Paths of a job: auxiliary facts\<close>

lemma split_char_no_sep: "sep \<notin> set s \<Longrightarrow> split_char sep s = [s]"
  by (induction s) auto

lemma path_div_name:
  "CHR ''/'' \<notin> set seg \<Longrightarrow> seg \<noteq> [] \<Longrightarrow> seg \<noteq> ''.'' \<Longrightarrow> path_div p seg = p @ [seg]"
  by (cases seg) (auto simp: path_div_def parse_parts_def split_char_no_sep)

lemma path_div_literals:
  "path_div p ''ct.nii.gz'' = p @ [''ct.nii.gz'']"
  "path_div p ''mr2ct_rigid.nii.gz'' = p @ [''mr2ct_rigid.nii.gz'']"
  "path_div p ''mr2ct_rigid.aff'' = p @ [''mr2ct_rigid.aff'']"
  "path_div p ''mr2ct_nonrigid.nii.gz'' = p @ [''mr2ct_nonrigid.nii.gz'']"
  "path_div p ''mr2ct_cpp.nii.gz'' = p @ [''mr2ct_cpp.nii.gz'']"
  "path_div p ''displ_field_ct.nii.gz'' = p @ [''displ_field_ct.nii.gz'']"
  "path_div p ''mag_displ_field_ct.nii.gz'' = p @ [''mag_displ_field_ct.nii.gz'']"
  "path_div p ''mr2ct_deformation.nii.gz'' = p @ [''mr2ct_deformation.nii.gz'']"
  "path_div p ''ct2mr_deformation.nii.gz'' = p @ [''ct2mr_deformation.nii.gz'']"
  "path_div p ''mag_displ_field_mri.nii.gz'' = p @ [''mag_displ_field_mri.nii.gz'']"
  by (simp_all add: path_div_name)

lemma path_div_figure:
  assumes "CHR ''/'' \<notin> set n"
  shows "path_div p (n @ ''_distortion_results.pdf'') = p @ [n @ ''_distortion_results.pdf'']"
proof (rule path_div_name)
  show "CHR ''/'' \<notin> set (n @ ''_distortion_results.pdf'')" using assms by simp
  show "n @ ''_distortion_results.pdf'' \<noteq> []" by simp
  have "length (n @ ''_distortion_results.pdf'') \<noteq> length ''.''" by simp
  then show "n @ ''_distortion_results.pdf'' \<noteq> ''.''" by fastforce
qed


lemma derive_paths_explicit:
  assumes "n = remove_niigz (name mri_fp)" "CHR ''/'' \<notin> set n" "n \<noteq> []" "n \<noteq> ''.''"
  shows "derive_paths out mri_fp =
     \<lparr>results_dp = out @ [n],
      ct_lnk_fp = out @ [n, ''ct.nii.gz''],
      rigid_fp = out @ [n, ''mr2ct_rigid.nii.gz''],
      affine_fp = out @ [n, ''mr2ct_rigid.aff''],
      nonrigid_fp = out @ [n, ''mr2ct_nonrigid.nii.gz''],
      cpp_fp = out @ [n, ''mr2ct_cpp.nii.gz''],
      disp_field_fp = out @ [n, ''displ_field_ct.nii.gz''],
      mag_displ_field_ct_fp = out @ [n, ''mag_displ_field_ct.nii.gz''],
      mr2ct_deformation_fp = out @ [n, ''mr2ct_deformation.nii.gz''],
      ct2mr_deformation_fp = out @ [n, ''ct2mr_deformation.nii.gz''],
      mag_displ_field_mri_fp = out @ [n, ''mag_displ_field_mri.nii.gz''],
      fig_fp = out @ [n @ ''_distortion_results.pdf'']\<rparr>"
proof -
  have a: "path_div out n = out @ [n]" using assms by (simp add: path_div_name)
  have b: "path_div out (n @ ''_distortion_results.pdf'') = out @ [n @ ''_distortion_results.pdf'']"
    using assms(2) by (rule path_div_figure)
  show ?thesis
    unfolding derive_paths_def Let_def assms(1)[symmetric] a b path_div_literals by simp
qed

lemma remove_niigz_mri: "remove_niigz ''mri.nii.gz'' = ''mri''"
  by (simp add: remove_niigz_unfold pat_nii_def pat_niigz_def)

lemma derive_paths_shape:
  "\<exists>dp fig. derive_paths out mri_fp =
     \<lparr>results_dp = dp,
      ct_lnk_fp = dp @ [''ct.nii.gz''],
      rigid_fp = dp @ [''mr2ct_rigid.nii.gz''],
      affine_fp = dp @ [''mr2ct_rigid.aff''],
      nonrigid_fp = dp @ [''mr2ct_nonrigid.nii.gz''],
      cpp_fp = dp @ [''mr2ct_cpp.nii.gz''],
      disp_field_fp = dp @ [''displ_field_ct.nii.gz''],
      mag_displ_field_ct_fp = dp @ [''mag_displ_field_ct.nii.gz''],
      mr2ct_deformation_fp = dp @ [''mr2ct_deformation.nii.gz''],
      ct2mr_deformation_fp = dp @ [''ct2mr_deformation.nii.gz''],
      mag_displ_field_mri_fp = dp @ [''mag_displ_field_mri.nii.gz''],
      fig_fp = fig\<rparr>"
  by (simp add: derive_paths_def Let_def path_div_literals)

section \<open>The derived paths\<close>

text \<open>
  C5. For an input file named \<open>mri.nii.gz\<close> and any output directory, the link
  \<open>ct.nii.gz\<close> and the nine files \<open>mr2ct_rigid.nii.gz\<close>, \<open>mr2ct_rigid.aff\<close>,
  \<open>mr2ct_nonrigid.nii.gz\<close>, \<open>mr2ct_cpp.nii.gz\<close>, \<open>displ_field_ct.nii.gz\<close>,
  \<open>mag_displ_field_ct.nii.gz\<close>, \<open>mr2ct_deformation.nii.gz\<close>,
  \<open>ct2mr_deformation.nii.gz\<close> and \<open>mag_displ_field_mri.nii.gz\<close> lie in the
  directory \<open>mri\<close> under the output directory, the figure
  \<open>mri_distortion_results.pdf\<close> lies in the output directory itself, and all of
  these paths are different from one another.
\<close>

theorem derive_paths_mri:
  "name mri_fp = ''mri.nii.gz'' \<Longrightarrow>
     derive_paths out mri_fp =
       \<lparr>results_dp = out @ [''mri''],
        ct_lnk_fp = out @ [''mri'', ''ct.nii.gz''],
        rigid_fp = out @ [''mri'', ''mr2ct_rigid.nii.gz''],
        affine_fp = out @ [''mri'', ''mr2ct_rigid.aff''],
        nonrigid_fp = out @ [''mri'', ''mr2ct_nonrigid.nii.gz''],
        cpp_fp = out @ [''mri'', ''mr2ct_cpp.nii.gz''],
        disp_field_fp = out @ [''mri'', ''displ_field_ct.nii.gz''],
        mag_displ_field_ct_fp = out @ [''mri'', ''mag_displ_field_ct.nii.gz''],
        mr2ct_deformation_fp = out @ [''mri'', ''mr2ct_deformation.nii.gz''],
        ct2mr_deformation_fp = out @ [''mri'', ''ct2mr_deformation.nii.gz''],
        mag_displ_field_mri_fp = out @ [''mri'', ''mag_displ_field_mri.nii.gz''],
        fig_fp = out @ [''mri_distortion_results.pdf'']\<rparr>
     \<and> distinct (job_files (derive_paths out mri_fp))"
proof -
  assume nm: "name mri_fp = ''mri.nii.gz''"
  have e: "derive_paths out mri_fp =
       \<lparr>results_dp = out @ [''mri''],
        ct_lnk_fp = out @ [''mri'', ''ct.nii.gz''],
        rigid_fp = out @ [''mri'', ''mr2ct_rigid.nii.gz''],
        affine_fp = out @ [''mri'', ''mr2ct_rigid.aff''],
        nonrigid_fp = out @ [''mri'', ''mr2ct_nonrigid.nii.gz''],
        cpp_fp = out @ [''mri'', ''mr2ct_cpp.nii.gz''],
        disp_field_fp = out @ [''mri'', ''displ_field_ct.nii.gz''],
        mag_displ_field_ct_fp = out @ [''mri'', ''mag_displ_field_ct.nii.gz''],
        mr2ct_deformation_fp = out @ [''mri'', ''mr2ct_deformation.nii.gz''],
        ct2mr_deformation_fp = out @ [''mri'', ''ct2mr_deformation.nii.gz''],
        mag_displ_field_mri_fp = out @ [''mri'', ''mag_displ_field_mri.nii.gz''],
        fig_fp = out @ [''mri_distortion_results.pdf'']\<rparr>"
    using derive_paths_explicit[of "''mri''" mri_fp out] by (simp add: nm remove_niigz_mri)
  have "distinct (job_files (derive_paths out mri_fp))"
    unfolding e by (simp add: job_files_def)
  with e show ?thesis by simp
qed

text \<open>
  C5 at the output directory \<open>/out\<close> and the input \<open>/data/mri.nii.gz\<close>.
\<close>

theorem derive_paths_mri_witness:
  "name [''data'', ''mri.nii.gz''] = ''mri.nii.gz'' \<and>
   job_files (derive_paths [''out''] [''data'', ''mri.nii.gz'']) =
     [[''out'', ''mri'', ''ct.nii.gz''], [''out'', ''mri'', ''mr2ct_rigid.nii.gz''],
      [''out'', ''mri'', ''mr2ct_rigid.aff''], [''out'', ''mri'', ''mr2ct_nonrigid.nii.gz''],
      [''out'', ''mri'', ''mr2ct_cpp.nii.gz''], [''out'', ''mri'', ''displ_field_ct.nii.gz''],
      [''out'', ''mri'', ''mag_displ_field_ct.nii.gz''],
      [''out'', ''mri'', ''mr2ct_deformation.nii.gz''],
      [''out'', ''mri'', ''ct2mr_deformation.nii.gz''],
      [''out'', ''mri'', ''mag_displ_field_mri.nii.gz''],
      [''out'', ''mri_distortion_results.pdf'']]"
proof -
  have h: "name [''data'', ''mri.nii.gz''] = ''mri.nii.gz''" by (simp add: name_def)
  from derive_paths_mri[OF h, of "[''out'']"] h show ?thesis
    by (simp add: job_files_def)
qed




section \<open>Version retrieval\<close>

lemma split_char_prefix: "sep \<notin> set t \<Longrightarrow> split_char sep (t @ sep # r) = t # split_char sep r"
  by (induction t) auto

lemma is_space_blank: "is_space CHR '' ''"
  by (simp add: is_space_def)

lemma ws_tokens_single:
  "t \<noteq> [] \<Longrightarrow> \<forall>c \<in> set t. \<not> is_space c \<Longrightarrow> ws_tokens t = [t]"
proof (induction t)
  case Nil
  then show ?case by simp
next
  case (Cons c u)
  then show ?case by (cases u) auto
qed

lemma ws_tokens_prefix:
  "t \<noteq> [] \<Longrightarrow> \<forall>c \<in> set t. \<not> is_space c \<Longrightarrow> is_space d \<Longrightarrow>
     ws_tokens (t @ d # r) = t # ws_tokens r"
proof (induction t)
  case Nil
  then show ?case by simp
next
  case (Cons c u)
  then show ?case by (cases u) auto
qed

lemma third_space_field:
  assumes "l = t1 @ '' '' @ t2 @ '' '' @ t3 @ rest"
      and "\<forall>t \<in> set [t1, t2, t3]. CHR '' '' \<notin> set t"
      and "rest = [] \<or> hd rest = CHR '' ''"
  shows "index (split_char CHR '' '' l) 2 = Inr t3"
proof -
  have ns: "CHR '' '' \<notin> set t1" "CHR '' '' \<notin> set t2" "CHR '' '' \<notin> set t3"
    using assms(2) by auto
  have l: "l = t1 @ CHR '' '' # t2 @ CHR '' '' # t3 @ rest" using assms(1) by simp
  show ?thesis
  proof (cases rest)
    case Nil
    then show ?thesis
      by (simp add: l split_char_prefix ns split_char_no_sep index_def)
  next
    case (Cons d r)
    then have "d = CHR '' ''" using assms(3) by simp
    then show ?thesis using Cons
      by (simp add: l split_char_prefix ns index_def)
  qed
qed

lemma third_ws_token:
  assumes "l = t1 @ '' '' @ t2 @ '' '' @ t3 @ rest"
      and "\<forall>t \<in> set [t1, t2, t3]. t \<noteq> [] \<and> (\<forall>c \<in> set t. \<not> is_space c)"
      and "rest = [] \<or> hd rest = CHR '' ''"
  shows "index (ws_tokens l) 2 = Inr t3"
proof -
  have ne: "t1 \<noteq> []" "t2 \<noteq> []" "t3 \<noteq> []" using assms(2) by auto
  have sp: "\<forall>c \<in> set t1. \<not> is_space c" "\<forall>c \<in> set t2. \<not> is_space c"
           "\<forall>c \<in> set t3. \<not> is_space c" using assms(2) by auto
  have l: "l = t1 @ CHR '' '' # t2 @ CHR '' '' # t3 @ rest" using assms(1) by simp
  show ?thesis
  proof (cases rest)
    case Nil
    then show ?thesis
      by (simp add: l ws_tokens_prefix ws_tokens_single ne sp is_space_blank index_def)
  next
    case (Cons d r)
    then have "d = CHR '' ''" using assms(3) by simp
    then show ?thesis using Cons
      by (simp add: l ws_tokens_prefix ne sp is_space_blank index_def)
  qed
qed

text \<open>
  C6. When \<open>mrinfo\<close> is not found, \<open>get_mrtrix_ver\<close> writes its error message
  to the standard error stream and raises \<open>SystemExit\<close> with code 1; the version
  gate then ends there, with no PASS or FAIL line of a comparison.
\<close>

theorem mrinfo_missing_exits:
  "spawn e mrinfo_cmd = NotFound \<Longrightarrow>
     get_mrtrix_ver e = ([Run mrinfo_cmd, Stderr mrinfo_missing_msg], Inl (SystemExit 1))
     \<and> check_versions e w MRTRIX_VERSIONS NIFTYREG_VERSIONS niftyreg_dp any_version
         = ([Stdout ''* checking versions of external software\<newline>'', Run mrinfo_cmd,
             Stderr mrinfo_missing_msg], Inl (SystemExit 1))"
  by (simp add: get_mrtrix_ver_def check_versions_def bind_def print_def)

text \<open>
  C6 in an environment where no executable is found.
\<close>

theorem mrinfo_missing_exits_witness:
  "spawn nothing_installed mrinfo_cmd = NotFound
   \<and> get_mrtrix_ver nothing_installed
       = ([Run [Str ''mrinfo'', Str ''-version''],
           Stderr ''ERROR: mrinfo (an mrtrix command) used to check version is not in your path, exiting\<newline>''],
          Inl (SystemExit 1))"
proof -
  have h: "spawn nothing_installed mrinfo_cmd = NotFound" by (simp add: nothing_installed_def)
  from mrinfo_missing_exits[OF h] h show ?thesis
    by (simp add: mrinfo_cmd_def mrinfo_missing_msg_def)
qed

text \<open>
  C7 as stated fails in its second half: the directory \<open>/opt\<close> exists but holds
  no \<open>reg_aladin\<close>, and \<open>sp.run\<close> raises instead of returning an output.
\<close>

theorem get_niftyreg_ver_missing_tool_counterexample:
  "is_dir opt_world [''opt'']
   \<and> get_niftyreg_ver nothing_installed opt_world [''opt'']
       = ([Run [Path [''opt'', ''reg_aladin''], Str ''-version'']], Inl (FileNotFoundError errno_2))"
  by (simp add: opt_world_def nothing_installed_def get_niftyreg_ver_def reg_aladin_version_cmd_def
      path_div_name)

text \<open>
  C7, amended. If the niftyreg directory does not exist, \<open>get_niftyreg_ver\<close>
  raises \<open>FileNotFoundError("niftyreg not found")\<close> without running any command,
  and the version gate ends with that exception before the niftyreg comparison.
  If the directory exists and \<open>reg_aladin -version\<close> can be started, the result is
  its trimmed standard output, whatever its return code. If the directory exists
  and the executable is not found, the \<open>FileNotFoundError\<close> of the operating
  system is raised.
\<close>

theorem get_niftyreg_ver_cases:
  "(\<not> is_dir w niftyreg_dp \<longrightarrow>
      get_niftyreg_ver e w niftyreg_dp = ([], Inl (FileNotFoundError ''niftyreg not found''))
      \<and> (get_mrtrix_ver e = (t, Inr v) \<and> check_lib_ver ''MRtrix'' v MRTRIX_VERSIONS any_version = (t', Inr ())
           \<longrightarrow> check_versions e w MRTRIX_VERSIONS NIFTYREG_VERSIONS niftyreg_dp any_version
                 = (Stdout ''* checking versions of external software\<newline>'' # t @ t',
                    Inl (FileNotFoundError ''niftyreg not found''))))
   \<and> (is_dir w niftyreg_dp \<and> spawn e (reg_aladin_version_cmd niftyreg_dp) = Exited rc out \<longrightarrow>
      get_niftyreg_ver e w niftyreg_dp = ([Run (reg_aladin_version_cmd niftyreg_dp)], Inr (strip out)))
   \<and> (is_dir w niftyreg_dp \<and> spawn e (reg_aladin_version_cmd niftyreg_dp) = NotFound \<longrightarrow>
      get_niftyreg_ver e w niftyreg_dp
        = ([Run (reg_aladin_version_cmd niftyreg_dp)], Inl (FileNotFoundError errno_2)))"
  by (simp add: get_niftyreg_ver_def check_versions_def bind_def print_def)

text \<open>
  C7, amended: a missing directory \<open>a\<close>, and the directory \<open>/opt\<close> with a
  \<open>reg_aladin\<close> that prints \<open>v1.5.58\<close>.
\<close>

theorem get_niftyreg_ver_cases_witness:
  "\<not> is_dir empty_world [''a'']
   \<and> get_niftyreg_ver usual_tools empty_world [''a'']
       = ([], Inl (FileNotFoundError ''niftyreg not found''))
   \<and> is_dir opt_world [''opt'']
   \<and> spawn usual_tools (reg_aladin_version_cmd [''opt'']) = Exited 0 ''v1.5.58\<newline>''
   \<and> get_niftyreg_ver usual_tools opt_world [''opt'']
       = ([Run [Path [''opt'', ''reg_aladin''], Str ''-version'']], Inr ''v1.5.58'')"
proof -
  have h1: "\<not> is_dir empty_world [''a'']" by (simp add: empty_world_def)
  have h2: "is_dir opt_world [''opt'']" by (simp add: opt_world_def)
  have c: "reg_aladin_version_cmd [''opt''] = [Path [''opt'', ''reg_aladin''], Str ''-version'']"
    by (simp add: reg_aladin_version_cmd_def path_div_name)
  have h3: "spawn usual_tools (reg_aladin_version_cmd [''opt'']) = Exited 0 ''v1.5.58\<newline>''"
    by (simp add: c usual_tools_def mrinfo_cmd_def)
  have s: "strip ''v1.5.58\<newline>'' = ''v1.5.58''" by (simp add: strip_def is_space_def)
  from get_niftyreg_ver_cases[where w = empty_world and niftyreg_dp = "[''a'']" and e = usual_tools] h1
  have a: "get_niftyreg_ver usual_tools empty_world [''a'']
       = ([], Inl (FileNotFoundError ''niftyreg not found''))" by blast
  from get_niftyreg_ver_cases[where w = opt_world and niftyreg_dp = "[''opt'']" and e = usual_tools
      and rc = 0 and out = "''v1.5.58\<newline>''"] h2 h3
  have b: "get_niftyreg_ver usual_tools opt_world [''opt'']
       = ([Run (reg_aladin_version_cmd [''opt''])], Inr (strip ''v1.5.58\<newline>''))" by blast
  show ?thesis using h1 h2 h3 a b by (simp add: c s)
qed

text \<open>
  C8 as stated fails: with two spaces after the first token, the 3rd
  whitespace-delimited token of the first line is \<open>3.0.1\<close>, and
  \<open>get_mrtrix_ver\<close> returns \<open>mrinfo\<close>, because \<open>split(" ")\<close> keeps the empty
  field between the two spaces.
\<close>

theorem get_mrtrix_ver_wide_banner_counterexample:
  "spawn wide_banner mrinfo_cmd = Exited 0 ''==  mrinfo 3.0.1 ==\<newline>''
   \<and> third_token_of_first_line ''==  mrinfo 3.0.1 ==\<newline>'' = Inr ''3.0.1''
   \<and> get_mrtrix_ver wide_banner = ([Run mrinfo_cmd], Inr ''mrinfo'')"
  by (simp add: wide_banner_def third_token_of_first_line_def get_mrtrix_ver_def parse_mrinfo_def
      strip_def splitlines.simps is_linebreak_def is_space_def index_def)

text \<open>
  C8, amended. Let \<open>mrinfo -version\<close> exit with code 0, and take the first line of
  its output after the output as a whole has been trimmed (the line itself keeps
  whitespace at its end when more lines follow). If that line is three fields
  without a space character, each separated from the next by one space
  character, and the third followed by a space character or by the end of the
  line, then \<open>get_mrtrix_ver\<close> returns the third field as it stands. If the three
  fields are moreover not empty and free of every whitespace character, the
  result is the 3rd whitespace-delimited token of that line.
\<close>

theorem get_mrtrix_ver_third_field:
  assumes "spawn e mrinfo_cmd = Exited 0 out"
      and "splitlines (strip out) = l # ls"
      and "l = t1 @ '' '' @ t2 @ '' '' @ t3 @ rest"
      and "\<forall>t \<in> set [t1, t2, t3]. CHR '' '' \<notin> set t"
      and "rest = [] \<or> hd rest = CHR '' ''"
  shows "get_mrtrix_ver e = ([Run mrinfo_cmd], Inr t3)
       \<and> ((\<forall>t \<in> set [t1, t2, t3]. t \<noteq> [] \<and> (\<forall>c \<in> set t. \<not> is_space c)) \<longrightarrow>
            third_token_of_first_line (strip out) = Inr t3)"
proof -
  have a: "get_mrtrix_ver e = ([Run mrinfo_cmd], Inr t3)"
    using third_space_field[OF assms(3,4,5)] assms(1,2)
    by (simp add: get_mrtrix_ver_def parse_mrinfo_def index_def)
  have b: "third_token_of_first_line (strip out) = Inr t3"
    if "\<forall>t \<in> set [t1, t2, t3]. t \<noteq> [] \<and> (\<forall>c \<in> set t. \<not> is_space c)"
    using third_ws_token[OF assms(3) that assms(5)] assms(2)
    by (simp add: third_token_of_first_line_def index_def)
  show ?thesis using a b by blast
qed

text \<open>
  C8, amended, at the banner \<open>== mrinfo 3.0.1-26-g0f28beae ==\<close> followed by a
  second line, and at a first line whose third field ends with a tab.
\<close>

theorem get_mrtrix_ver_third_field_witness:
  "spawn usual_tools mrinfo_cmd
     = Exited 0 ''== mrinfo 3.0.1-26-g0f28beae ==\<newline>64 bit release version''
   \<and> get_mrtrix_ver usual_tools = ([Run mrinfo_cmd], Inr ''3.0.1-26-g0f28beae'')
   \<and> third_token_of_first_line (strip ''== mrinfo 3.0.1-26-g0f28beae ==\<newline>64 bit release version'')
       = Inr ''3.0.1-26-g0f28beae''
   \<and> spawn tab_banner mrinfo_cmd = Exited 0 (''== mrinfo 3.0.1'' @ CHR 0x09 # ''\<newline>64 bit release version'')
   \<and> get_mrtrix_ver tab_banner = ([Run mrinfo_cmd], Inr (''3.0.1'' @ [CHR 0x09]))"
proof -
  let ?out = "''== mrinfo 3.0.1-26-g0f28beae ==\<newline>64 bit release version''"
  have h1: "spawn usual_tools mrinfo_cmd = Exited 0 ?out" by (simp add: usual_tools_def)
  have h2: "splitlines (strip ?out) = ''== mrinfo 3.0.1-26-g0f28beae =='' # [''64 bit release version'']"
    by (simp add: strip_def is_space_def is_linebreak_def)
  have h3: "''== mrinfo 3.0.1-26-g0f28beae =='' = ''=='' @ '' '' @ ''mrinfo'' @ '' '' @ ''3.0.1-26-g0f28beae'' @ '' ==''"
    by simp
  have h4: "\<forall>t \<in> set [''=='', ''mrinfo'', ''3.0.1-26-g0f28beae'']. CHR '' '' \<notin> set t"
    by simp
  have h4': "\<forall>t \<in> set [''=='', ''mrinfo'', ''3.0.1-26-g0f28beae'']. t \<noteq> [] \<and> (\<forall>c \<in> set t. \<not> is_space c)"
    by (simp add: is_space_def)
  have h5: "'' =='' = [] \<or> hd '' =='' = CHR '' ''" by simp
  note u = get_mrtrix_ver_third_field[OF h1 h2 h3 h4 h5]
  let ?tab = "(''== mrinfo 3.0.1'' @ CHR 0x09 # ''\<newline>64 bit release version'')"
  have g1: "spawn tab_banner mrinfo_cmd = Exited 0 ?tab" by (simp add: tab_banner_def)
  have g2: "splitlines (strip ?tab) = (''== mrinfo 3.0.1'' @ [CHR 0x09]) # [''64 bit release version'']"
    by (simp add: strip_def is_space_def is_linebreak_def)
  have g3: "(''== mrinfo 3.0.1'' @ [CHR 0x09]) = ''=='' @ '' '' @ ''mrinfo'' @ '' '' @ (''3.0.1'' @ [CHR 0x09]) @ []"
    by simp
  have g4: "\<forall>t \<in> set [''=='', ''mrinfo'', (''3.0.1'' @ [CHR 0x09])]. CHR '' '' \<notin> set t"
    by simp
  have g5: "([]::string) = [] \<or> hd ([]::string) = CHR '' ''" by simp
  note v = get_mrtrix_ver_third_field[OF g1 g2 g3 g4 g5]
  show ?thesis using u v h1 g1 h4' by blast
qed

section \<open>The loop body\<close>

lemma bind_Inl: "bind (t, Inl x) f = (t, Inl x)"
  by (simp add: bind_def)

lemma bind_Inr: "bind (t, Inr x) f = (t @ fst (f x), snd (f x))"
  by (simp add: bind_def split: prod.splits)

lemma mkdir_rev_existing:
  "lexists w (rev rp) \<Longrightarrow> is_dir w (rev rp) \<Longrightarrow> mkdir_rev w rp = Inr w"
  by (cases rp) simp_all

lemma mkdir_existing: "lexists w p \<Longrightarrow> is_dir w p \<Longrightarrow> mkdir w p = ([Mkdir p], Inr w)"
  using mkdir_rev_existing[of w "rev p"] by (simp add: mkdir_def)

lemma mkdir_rev_creates:
  "mkdir_rev w rp = Inr w' \<Longrightarrow> rp \<noteq> [] \<Longrightarrow> lexists w' (rev rp) \<and> is_dir w' (rev rp)"
  by (cases rp) (auto simp: create_dir_def split: if_splits sum.splits)

lemma symlink_to_creates:
  "symlink_to w l t = (ev, Inr w') \<Longrightarrow>
     lexists w' l \<and> (\<forall>p. p \<noteq> l \<longrightarrow> lexists w' p = lexists w p \<and> is_dir w' p = is_dir w p)"
  by (auto simp: symlink_to_def split: if_splits)

lemma run_all_events_prefix: "prefix (fst (run_all steps)) (concat (map fst steps))"
proof (induction steps)
  case Nil
  then show ?case by simp
next
  case (Cons s ss)
  obtain t r where s: "s = (t, r)" by (cases s)
  show ?case using Cons by (cases r) (simp_all add: s bind_Inl bind_Inr)
qed

lemma run_all_events_complete:
  "snd (run_all steps) = Inr () \<Longrightarrow> fst (run_all steps) = concat (map fst steps)"
proof (induction steps)
  case Nil
  then show ?case by simp
next
  case (Cons s ss)
  obtain t r where s: "s = (t, r)" by (cases s)
  show ?case using Cons by (cases r) (simp_all add: s bind_Inl bind_Inr)
qed

lemma calls_append: "calls (a @ b) = calls a @ calls b"
  by (induction a rule: calls.induct) simp_all

lemma blocking_calls_calls: "blocking_calls (calls t) = blocking_calls t"
  by (induction t rule: calls.induct) simp_all

lemma detached_calls_calls: "detached_calls (calls t) = detached_calls t"
  by (induction t rule: calls.induct) simp_all

lemma blocking_calls_append: "blocking_calls (a @ b) = blocking_calls a @ blocking_calls b"
  by (induction a rule: blocking_calls.induct) simp_all

lemma detached_calls_append: "detached_calls (a @ b) = detached_calls a @ detached_calls b"
  by (induction a rule: detached_calls.induct) simp_all

lemma fst_steps:
  "fst (print x) = [Stdout (x @ ''\<newline>'')]"
  "fst (sp_run_check e c) = [Run c]"
  "fst (sp_popen e c) = [Popen c]"
  "fst (contour e b o' f) = [Contour b o' f]"
  "fst (mkdir w p) = [Mkdir p]"
  "fst (symlink_to w l t) = [Symlink l t]"
  by (simp_all add: print_def sp_run_check_def sp_popen_def contour_def mkdir_def symlink_to_def
      split: proc_result.splits)

lemma command_steps_calls:
  "calls (concat (map fst (command_steps e s mri_fp j))) = call_script s mri_fp j"
  by (simp add: command_steps_def fst_steps call_script_def)

lemma run_commands_calls_prefix:
  "prefix (calls (fst (run_commands e s mri_fp j))) (call_script s mri_fp j)"
proof -
  have "prefix (fst (run_commands e s mri_fp j)) (concat (map fst (command_steps e s mri_fp j)))"
    unfolding run_commands_def by (rule run_all_events_prefix)
  then obtain zs where
    "concat (map fst (command_steps e s mri_fp j)) = fst (run_commands e s mri_fp j) @ zs"
    by (auto simp: prefix_def)
  then have "call_script s mri_fp j = calls (fst (run_commands e s mri_fp j) @ zs)"
    using command_steps_calls[of e s mri_fp j] by simp
  then show ?thesis by (simp add: calls_append prefix_def)
qed

lemma run_commands_calls_complete:
  "snd (run_commands e s mri_fp j) = Inr () \<Longrightarrow>
     calls (fst (run_commands e s mri_fp j)) = call_script s mri_fp j"
  using run_all_events_complete[of "command_steps e s mri_fp j"] command_steps_calls[of e s mri_fp j]
  by (simp add: run_commands_def)

text \<open>The events before the commands hold no call.\<close>

lemma process_file_calls:
  "calls (fst (process_file e w s mri_fp)) = []
   \<or> (\<exists>w'. calls (fst (process_file e w s mri_fp))
               = calls (fst (run_commands e s mri_fp (derive_paths (out_dp s) mri_fp)))
            \<and> snd (process_file e w s mri_fp)
               = snd (run_commands e s mri_fp (derive_paths (out_dp s) mri_fp)))"
proof -
  let ?j = "derive_paths (out_dp s) mri_fp"
  obtain r1 where m: "mkdir w (results_dp ?j) = ([Mkdir (results_dp ?j)], r1)"
    by (simp add: mkdir_def)
  show ?thesis
  proof (cases r1)
    case (Inl x)
    then show ?thesis
      by (simp add: process_file_def Let_def print_def bind_Inr bind_Inl m)
  next
    case (Inr w1)
    obtain r2 where l: "symlink_to w1 (ct_lnk_fp ?j) (ct_fp s)
                         = ([Symlink (ct_lnk_fp ?j) (ct_fp s)], r2)"
      by (simp add: symlink_to_def)
    show ?thesis
    proof (cases r2)
      case (Inl x)
      then show ?thesis using Inr
        by (simp add: process_file_def Let_def print_def bind_Inr bind_Inl m l)
    next
      case (Inr w2)
      then show ?thesis using \<open>r1 = Inr w1\<close>
        by (simp add: process_file_def Let_def print_def bind_Inr bind_Inl m l calls_append)
    qed
  qed
qed

lemma process_file_success:
  "snd (process_file e w s mri_fp) = Inr () \<Longrightarrow>
     calls (fst (process_file e w s mri_fp))
       = calls (fst (run_commands e s mri_fp (derive_paths (out_dp s) mri_fp)))
     \<and> snd (run_commands e s mri_fp (derive_paths (out_dp s) mri_fp)) = Inr ()"
proof -
  assume ok: "snd (process_file e w s mri_fp) = Inr ()"
  let ?j = "derive_paths (out_dp s) mri_fp"
  obtain r1 where m: "mkdir w (results_dp ?j) = ([Mkdir (results_dp ?j)], r1)"
    by (simp add: mkdir_def)
  show ?thesis
  proof (cases r1)
    case (Inl x)
    then show ?thesis using ok
      by (simp add: process_file_def Let_def print_def bind_Inr bind_Inl m)
  next
    case (Inr w1)
    obtain r2 where l: "symlink_to w1 (ct_lnk_fp ?j) (ct_fp s)
                         = ([Symlink (ct_lnk_fp ?j) (ct_fp s)], r2)"
      by (simp add: symlink_to_def)
    show ?thesis
    proof (cases r2)
      case (Inl x)
      then show ?thesis using Inr ok
        by (simp add: process_file_def Let_def print_def bind_Inr bind_Inl m l)
    next
      case (Inr w2)
      then show ?thesis using \<open>r1 = Inr w1\<close> ok
        by (simp add: process_file_def Let_def print_def bind_Inr bind_Inl m l calls_append)
    qed
  qed
qed

lemma call_script_blocking:
  "blocking_calls (call_script s mri_fp j) = blocking_cmds s mri_fp j"
  "detached_calls (call_script s mri_fp j) = [mrview_cmd s j]"
  by (simp_all add: call_script_def blocking_cmds_def)

lemma feeds_chain:
  assumes "j = derive_paths out mri_fp"
  shows "feeds (rigid_cmd s f j) (nonrigid_cmd s j)"
    "feeds (nonrigid_cmd s j) (disp_cmd s j)"
    "feeds (disp_cmd s j) (mag_displ_field_cmd j)"
    "feeds (rigid_cmd s f j) (compose_cmd s j)"
    "feeds (compose_cmd s j) (invert_cmd s f j)"
    "feeds (invert_cmd s f j) (resample_cmd s f j)"
proof -
  obtain dp fig where j: "j =
     \<lparr>results_dp = dp,
      ct_lnk_fp = dp @ [''ct.nii.gz''],
      rigid_fp = dp @ [''mr2ct_rigid.nii.gz''],
      affine_fp = dp @ [''mr2ct_rigid.aff''],
      nonrigid_fp = dp @ [''mr2ct_nonrigid.nii.gz''],
      cpp_fp = dp @ [''mr2ct_cpp.nii.gz''],
      disp_field_fp = dp @ [''displ_field_ct.nii.gz''],
      mag_displ_field_ct_fp = dp @ [''mag_displ_field_ct.nii.gz''],
      mr2ct_deformation_fp = dp @ [''mr2ct_deformation.nii.gz''],
      ct2mr_deformation_fp = dp @ [''ct2mr_deformation.nii.gz''],
      mag_displ_field_mri_fp = dp @ [''mag_displ_field_mri.nii.gz''],
      fig_fp = fig\<rparr>"
    using derive_paths_shape[of out mri_fp] assms by blast
  show "feeds (rigid_cmd s f j) (nonrigid_cmd s j)"
    by (simp add: j feeds_def outputs_def inputs_def rigid_cmd_def nonrigid_cmd_def)
  show "feeds (nonrigid_cmd s j) (disp_cmd s j)"
    by (simp add: j feeds_def outputs_def inputs_def nonrigid_cmd_def disp_cmd_def)
  show "feeds (disp_cmd s j) (mag_displ_field_cmd j)"
    by (simp add: j feeds_def outputs_def inputs_def disp_cmd_def mag_displ_field_cmd_def)
  show "feeds (rigid_cmd s f j) (compose_cmd s j)"
    by (simp add: j feeds_def outputs_def inputs_def rigid_cmd_def compose_cmd_def)
  show "feeds (compose_cmd s j) (invert_cmd s f j)"
    by (simp add: j feeds_def outputs_def inputs_def compose_cmd_def invert_cmd_def)
  show "feeds (invert_cmd s f j) (resample_cmd s f j)"
    by (simp add: j feeds_def outputs_def inputs_def invert_cmd_def resample_cmd_def)
qed

lemma prefix_calls_blocking:
  assumes "prefix (calls t) (call_script s f j)"
  shows "prefix (blocking_calls t) (blocking_cmds s f j)" "prefix (detached_calls t) [mrview_cmd s j]"
proof -
  from assms obtain zs where z: "call_script s f j = calls t @ zs" by (auto simp: prefix_def)
  have "blocking_calls (call_script s f j) = blocking_calls t @ blocking_calls zs"
    by (simp add: z blocking_calls_append blocking_calls_calls)
  then show "prefix (blocking_calls t) (blocking_cmds s f j)"
    by (simp add: call_script_blocking prefix_def)
  have "detached_calls (call_script s f j) = detached_calls t @ detached_calls zs"
    by (simp add: z detached_calls_append detached_calls_calls)
  then show "prefix (detached_calls t) [mrview_cmd s j]"
    by (simp add: call_script_blocking prefix_def)
qed

lemma process_file_calls_prefix:
  "prefix (calls (fst (process_file e w s f))) (call_script s f (derive_paths (out_dp s) f))"
  using process_file_calls[of e w s f] run_commands_calls_prefix[of e s f "derive_paths (out_dp s) f"]
  by auto

lemma process_file_calls_complete:
  "snd (process_file e w s f) = Inr () \<Longrightarrow>
     calls (fst (process_file e w s f)) = call_script s f (derive_paths (out_dp s) f)"
  using process_file_success[of e w s f] run_commands_calls_complete by simp

lemma example_pass:
  "snd (process_file all_succeed empty_world example_tools [''data'', ''mri.nii.gz'']) = Inr ()"
proof -
  have n: "name [''data'', ''mri.nii.gz''] = ''mri.nii.gz''" by (simp add: name_def)
  have j: "out_dp example_tools = [''out'']" by (simp add: example_tools_def make_tools_def)
  note d = derive_paths_explicit[of "''mri''" "[''data'', ''mri.nii.gz'']" "[''out'']"]
  have r: "results_dp (derive_paths [''out''] [''data'', ''mri.nii.gz'']) = [''out'', ''mri'']"
    and l: "ct_lnk_fp (derive_paths [''out''] [''data'', ''mri.nii.gz'']) = [''out'', ''mri'', ''ct.nii.gz'']"
    using d by (simp_all add: n remove_niigz_mri)
  have m: "mkdir empty_world [''out'', ''mri'']
     = ([Mkdir [''out'', ''mri'']], Inr (create_dir (create_dir empty_world [''out'']) [''out'', ''mri'']))"
    by (simp add: mkdir_def empty_world_def)
  have sl: "\<exists>w'. symlink_to (create_dir (create_dir empty_world [''out'']) [''out'', ''mri''])
              [''out'', ''mri'', ''ct.nii.gz''] t = ([Symlink [''out'', ''mri'', ''ct.nii.gz''] t], Inr w')" for t
    by (simp add: symlink_to_def create_dir_def empty_world_def)
  have rc: "snd (run_commands all_succeed s f jj) = Inr ()" for s f jj
    by (simp add: run_commands_def command_steps_def bind_def print_def sp_run_check_def
        sp_popen_def contour_def all_succeed_def)
  obtain w' where sl': "symlink_to (create_dir (create_dir empty_world [''out'']) [''out'', ''mri''])
              [''out'', ''mri'', ''ct.nii.gz''] (ct_fp example_tools)
       = ([Symlink [''out'', ''mri'', ''ct.nii.gz''] (ct_fp example_tools)], Inr w')"
    using sl by blast
  show ?thesis
    by (simp add: process_file_def Let_def j r l m sl' print_def bind_Inr rc)
qed

text \<open>
  C4 as stated fails: in a pass where every command succeeds, \<open>sp.run\<close> is
  called seven times, not nine.
\<close>

theorem nine_blocking_calls_counterexample:
  "snd (process_file all_succeed empty_world example_tools [''data'', ''mri.nii.gz'']) = Inr ()
   \<and> length (blocking_calls (fst (process_file all_succeed empty_world example_tools
        [''data'', ''mri.nii.gz'']))) = 7
   \<and> length (blocking_calls (fst (process_file all_succeed empty_world example_tools
        [''data'', ''mri.nii.gz'']))) \<noteq> 9"
proof -
  have "calls (fst (process_file all_succeed empty_world example_tools [''data'', ''mri.nii.gz'']))
       = call_script example_tools [''data'', ''mri.nii.gz'']
           (derive_paths (out_dp example_tools) [''data'', ''mri.nii.gz''])"
    using example_pass by (rule process_file_calls_complete)
  then have "blocking_calls (fst (process_file all_succeed empty_world example_tools
        [''data'', ''mri.nii.gz'']))
       = blocking_cmds example_tools [''data'', ''mri.nii.gz'']
           (derive_paths (out_dp example_tools) [''data'', ''mri.nii.gz''])"
    using blocking_calls_calls call_script_blocking(1) by metis
  then show ?thesis using example_pass by (simp add: blocking_cmds_def)
qed

text \<open>
  C4, amended. The loop body holds seven blocking calls and one detached call.
  In every pass the blocking calls made are a prefix of these seven, in the order
  of the source, and at most the one viewer is started. A pass that ends without
  an exception has made exactly the seven blocking calls and the one detached
  call, the viewer after the second blocking call. Every blocking call but the
  first reads a file that an earlier blocking call writes: the non-rigid
  registration reads the rigid result, the displacement extraction the control
  point grid, the magnitude the displacement field, the composition the affine
  matrix, the inversion the composed deformation, the resampling the inverse.
\<close>

theorem seven_blocking_calls:
  assumes "j = derive_paths (out_dp s) mri_fp" and "t = fst (process_file e w s mri_fp)"
  shows "length (blocking_cmds s mri_fp j) = 7
       \<and> prefix (blocking_calls t) (blocking_cmds s mri_fp j)
       \<and> prefix (detached_calls t) [mrview_cmd s j]
       \<and> (snd (process_file e w s mri_fp) = Inr () \<longrightarrow>
            calls t = call_script s mri_fp j
            \<and> blocking_calls t = blocking_cmds s mri_fp j
            \<and> detached_calls t = [mrview_cmd s j])
       \<and> feeds (rigid_cmd s mri_fp j) (nonrigid_cmd s j)
       \<and> feeds (nonrigid_cmd s j) (disp_cmd s j)
       \<and> feeds (disp_cmd s j) (mag_displ_field_cmd j)
       \<and> feeds (rigid_cmd s mri_fp j) (compose_cmd s j)
       \<and> feeds (compose_cmd s j) (invert_cmd s mri_fp j)
       \<and> feeds (invert_cmd s mri_fp j) (resample_cmd s mri_fp j)"
proof -
  have p: "prefix (calls t) (call_script s mri_fp j)"
    unfolding assms by (rule process_file_calls_prefix)
  have c: "snd (process_file e w s mri_fp) = Inr () \<longrightarrow> calls t = call_script s mri_fp j"
    unfolding assms using process_file_calls_complete by blast
  have b: "calls t = call_script s mri_fp j \<Longrightarrow>
      blocking_calls t = blocking_cmds s mri_fp j \<and> detached_calls t = [mrview_cmd s j]"
    using call_script_blocking[of s mri_fp j] blocking_calls_calls[of t] detached_calls_calls[of t]
    by simp
  have l: "length (blocking_cmds s mri_fp j) = 7" by (simp add: blocking_cmds_def)
  show ?thesis
    using l prefix_calls_blocking[OF p] c b feeds_chain[OF assms(1)] by blast
qed

text \<open>
  C4, amended, at a pass over \<open>/data/mri.nii.gz\<close> in which every command succeeds.
\<close>

theorem seven_blocking_calls_witness:
  "snd (process_file all_succeed empty_world example_tools [''data'', ''mri.nii.gz'']) = Inr ()
   \<and> length (blocking_calls (fst (process_file all_succeed empty_world example_tools
        [''data'', ''mri.nii.gz'']))) = 7
   \<and> length (detached_calls (fst (process_file all_succeed empty_world example_tools
        [''data'', ''mri.nii.gz'']))) = 1
   \<and> feeds (rigid_cmd example_tools [''data'', ''mri.nii.gz'']
              (derive_paths (out_dp example_tools) [''data'', ''mri.nii.gz'']))
            (nonrigid_cmd example_tools
              (derive_paths (out_dp example_tools) [''data'', ''mri.nii.gz'']))"
proof -
  note t = seven_blocking_calls[OF refl refl, of example_tools "[''data'', ''mri.nii.gz'']"
             all_succeed empty_world]
  from t example_pass show ?thesis by simp
qed

text \<open>
  C10. If the results directory of a job exists and already holds an entry
  \<open>ct.nii.gz\<close>, the pass prints its first line, finds the directory, and raises
  \<open>FileExistsError\<close> when it creates the link; no command has been called. A pass
  that got beyond the link leaves such a directory and such an entry behind, so
  that a second pass over the same input into the same output directory raises.
\<close>

theorem existing_link_raises:
  assumes "j = derive_paths (out_dp s) mri_fp"
  shows "(lexists w (results_dp j) \<and> is_dir w (results_dp j) \<and> lexists w (ct_lnk_fp j) \<longrightarrow>
            process_file e w s mri_fp
              = ([Stdout (''* processing '' @ name mri_fp @ ''\<newline>''), Mkdir (results_dp j),
                  Symlink (ct_lnk_fp j) (ct_fp s)], Inl FileExistsError)
            \<and> calls (fst (process_file e w s mri_fp)) = [])
       \<and> (results_dp j \<noteq> [] \<and> mkdir w0 (results_dp j) = (t1, Inr w1)
            \<and> symlink_to w1 (ct_lnk_fp j) (ct_fp s) = (t2, Inr w2) \<longrightarrow>
            lexists w2 (results_dp j) \<and> is_dir w2 (results_dp j) \<and> lexists w2 (ct_lnk_fp j))"
proof -
  have p1: "process_file e w s mri_fp
           = ([Stdout (''* processing '' @ name mri_fp @ ''\<newline>''), Mkdir (results_dp j),
               Symlink (ct_lnk_fp j) (ct_fp s)], Inl FileExistsError)
         \<and> calls (fst (process_file e w s mri_fp)) = []"
    if a: "lexists w (results_dp j) \<and> is_dir w (results_dp j) \<and> lexists w (ct_lnk_fp j)"
  proof -
    have "process_file e w s mri_fp
           = ([Stdout (''* processing '' @ name mri_fp @ ''\<newline>''), Mkdir (results_dp j),
               Symlink (ct_lnk_fp j) (ct_fp s)], Inl FileExistsError)"
      using a unfolding process_file_def assms(1)[symmetric] Let_def
      by (simp add: mkdir_existing print_def bind_Inr bind_Inl symlink_to_def)
    then show ?thesis by simp
  qed
  have p2: "lexists w2 (results_dp j) \<and> is_dir w2 (results_dp j) \<and> lexists w2 (ct_lnk_fp j)"
    if b: "results_dp j \<noteq> [] \<and> mkdir w0 (results_dp j) = (t1, Inr w1)
            \<and> symlink_to w1 (ct_lnk_fp j) (ct_fp s) = (t2, Inr w2)"
  proof -
    have ne: "results_dp j \<noteq> ct_lnk_fp j"
      using derive_paths_shape[of "out_dp s" mri_fp] assms by auto
    have "mkdir_rev w0 (rev (results_dp j)) = Inr w1" using b by (simp add: mkdir_def)
    then have d: "lexists w1 (results_dp j) \<and> is_dir w1 (results_dp j)"
      using mkdir_rev_creates[of w0 "rev (results_dp j)" w1] b by simp
    from b have "lexists w2 (ct_lnk_fp j) \<and> (\<forall>p. p \<noteq> ct_lnk_fp j \<longrightarrow>
        lexists w2 p = lexists w1 p \<and> is_dir w2 p = is_dir w1 p)"
      using symlink_to_creates by blast
    with d ne show ?thesis by simp
  qed
  from p1 p2 show ?thesis by blast
qed

text \<open>
  C10 at a second pass over \<open>/data/mri.nii.gz\<close> into \<open>/out\<close>.
\<close>

theorem existing_link_raises_witness:
  "lexists second_run_world [''out'', ''mri''] \<and> is_dir second_run_world [''out'', ''mri'']
   \<and> lexists second_run_world [''out'', ''mri'', ''ct.nii.gz'']
   \<and> process_file all_succeed second_run_world example_tools [''data'', ''mri.nii.gz'']
       = ([Stdout ''* processing mri.nii.gz\<newline>'', Mkdir [''out'', ''mri''],
           Symlink [''out'', ''mri'', ''ct.nii.gz''] [''pkg'', ''ct.nii.gz'']], Inl FileExistsError)"
proof -
  have n: "name [''data'', ''mri.nii.gz''] = ''mri.nii.gz''" by (simp add: name_def)
  have j: "derive_paths (out_dp example_tools) [''data'', ''mri.nii.gz'']
            = derive_paths [''out''] [''data'', ''mri.nii.gz'']"
    by (simp add: example_tools_def make_tools_def)
  have r: "results_dp (derive_paths [''out''] [''data'', ''mri.nii.gz'']) = [''out'', ''mri'']"
    and l: "ct_lnk_fp (derive_paths [''out''] [''data'', ''mri.nii.gz'']) = [''out'', ''mri'', ''ct.nii.gz'']"
    using derive_paths_explicit[of "''mri''" "[''data'', ''mri.nii.gz'']" "[''out'']"]
    by (simp_all add: n remove_niigz_mri)
  have c: "ct_fp example_tools = [''pkg'', ''ct.nii.gz'']"
    by (simp add: example_tools_def make_tools_def path_div_literals)
  have h1: "lexists second_run_world [''out'', ''mri'']"
    and h2: "is_dir second_run_world [''out'', ''mri'']"
    and h3: "lexists second_run_world [''out'', ''mri'', ''ct.nii.gz'']"
    by (simp_all add: second_run_world_def)
  from existing_link_raises[OF j[symmetric], of second_run_world all_succeed] h1 h2 h3
  show ?thesis by (simp add: r l c n j)
qed

end
